theory Spec2Isabelle
  imports Complex_Main "HOL-Library.Multiset"
begin

section \<open>Python strings and numbers\<close>

text \<open>
  A Python \<open>str\<close> is a \<open>string\<close> (a list of characters, the code points below 256).
  An \<open>int\<close> is an \<open>int\<close>. A \<open>float\<close> or a \<open>Decimal\<close> is the rational number it denotes
  (infinities and NaN left out). An exception is the string \<open>str(e)\<close> of its message,
  the only thing the code reads of it.
\<close>

text \<open>
  Arithmetic on floats rounds. \<open>rnd\<close> stands for the rounding of an exact result to the
  float nearest to it, and is a parameter: nothing is assumed of it. An operation on
  floats is the exact operation followed by \<open>rnd\<close>: \<open>a + b\<close> on two floats, \<open>m / n\<close> on
  two integers (true division, \<open>n\<close> not zero), \<open>a * b\<close> on a float and an integer.
\<close>

definition float_add :: "(rat \<Rightarrow> rat) \<Rightarrow> rat \<Rightarrow> rat \<Rightarrow> rat" where
  "float_add rnd a b = rnd (a + b)"

definition int_truediv :: "(rat \<Rightarrow> rat) \<Rightarrow> int \<Rightarrow> int \<Rightarrow> rat" where
  "int_truediv rnd m n = rnd (of_int m / of_int n)"

definition float_mul :: "(rat \<Rightarrow> rat) \<Rightarrow> rat \<Rightarrow> int \<Rightarrow> rat" where
  "float_mul rnd a n = rnd (a * of_int n)"

definition nl :: char where
  "nl = CHR 0x0A"

definition digit_char :: "nat \<Rightarrow> char" where
  "digit_char d = ''0123456789'' ! d"

text \<open>\<open>str(n)\<close> of a natural number: its decimal digits.\<close>

fun str_nat :: "nat \<Rightarrow> string" where
  "str_nat n = (if n < 10 then [digit_char n] else str_nat (n div 10) @ [digit_char (n mod 10)])"

declare str_nat.simps [simp del]

text \<open>\<open>str(i)\<close>, what an f-string prints for an integer field.\<close>

definition str_int :: "int \<Rightarrow> string" where
  "str_int i = (if i < 0 then CHR ''-'' # str_nat (nat (- i)) else str_nat (nat i))"

text \<open>\<open>sep.join(xs)\<close>.\<close>

fun str_join :: "string \<Rightarrow> string list \<Rightarrow> string" where
  "str_join sep [] = []"
| "str_join sep [x] = x"
| "str_join sep (x # y # ys) = x @ sep @ str_join sep (y # ys)"

text \<open>\<open>s.split(c)\<close> for a one-character separator: never the empty list.\<close>

fun str_split :: "char \<Rightarrow> string \<Rightarrow> string list" where
  "str_split c [] = [[]]"
| "str_split c (x # xs) =
     (if x = c then [] # str_split c xs
      else (case str_split c xs of [] \<Rightarrow> [[x]] | l # ls \<Rightarrow> (x # l) # ls))"

text \<open>\<open>s.startswith(p)\<close>.\<close>

definition startswith :: "string \<Rightarrow> string \<Rightarrow> bool" where
  "startswith s p = (take (length p) s = p)"

text \<open>
  \<open>c.isspace()\<close> on the code points below 256: tab to carriage return, the four
  separators 28 to 31, the space, NEL and the no-break space.
\<close>

definition isspace :: "char \<Rightarrow> bool" where
  "isspace c = ((of_char c :: nat) \<in> {9, 10, 11, 12, 13, 28, 29, 30, 31, 32, 133, 160})"

text \<open>\<open>s.strip()\<close>.\<close>

definition str_strip :: "string \<Rightarrow> string" where
  "str_strip s = rev (dropWhile isspace (rev (dropWhile isspace s)))"

text \<open>The truth value of an optional string: \<open>None\<close> and \<open>""\<close> are false.\<close>

fun truthy :: "string option \<Rightarrow> bool" where
  "truthy None = False"
| "truthy (Some s) = (s \<noteq> [])"

section \<open>Data model\<close>

text \<open>
  Modelled from the spec: \<open>CodeChunk\<close>, the chunk type of the module \<open>chunking\<close>, which
  is not among the source files. The fields are those of the spec's Chunk (ordinal, start
  line, end line, type tag, contained symbol names, text), under the names by which the
  chunk processor reads them; the field \<open>type\<close> is \<open>chunk_type\<close> here.
\<close>

record CodeChunk =
  chunk_id :: int
  content :: string
  start_line :: int
  end_line :: int
  chunk_type :: string
  elements :: "string list"

text \<open>
  Modelled from the spec: the \<open>cost_metrics\<close> dictionary that the generator of the module
  \<open>claude_client\<close> (not among the source files) returns, with the two keys the chunk
  processor reads, \<open>total_cost\<close> and \<open>total_tokens\<close>.
\<close>

record CostMetrics =
  cm_total_cost :: rat
  cm_total_tokens :: int

text \<open>
  The \<open>metadata\<close> dictionary of a cache entry. Its keys are optional (the code reads
  \<open>tokens\<close> with a default); the values are the numbers and the line range that
  \<open>_process_single_chunk\<close> writes.
\<close>

record Metadata =
  md_cost :: "rat option"
  md_tokens :: "int option"
  md_chunk_id :: "int option"
  md_chunk_lines :: "string option"

text \<open>
  The item \<open>save_to_cache\<close> builds and the table stores. \<open>source_code\<close> is the one
  optional key: \<open>None\<close> is an item without the key, \<open>Some ''''\<close> would be the key with
  an empty string.
\<close>

record CacheEntry =
  file_hash :: string
  file_path :: string
  documentation :: string
  metadata :: Metadata
  created_at :: string
  ttl :: int
  source_code :: "string option"

text \<open>
  The dictionary \<open>_process_single_chunk\<close> returns, and the one \<open>process_chunks\<close> puts
  in its place when the job raised (the only one with the key \<open>error\<close>).
\<close>

record ChunkResult =
  res_chunk_id :: int
  res_documentation :: string
  res_cost :: rat
  res_tokens :: int
  res_cached :: bool
  res_source_code :: "string option"
  res_error :: "string option"

text \<open>The \<open>metrics\<close> dictionary \<open>process_chunks\<close> returns.\<close>

record Metrics =
  total_cost :: rat
  total_tokens :: int
  total_chunks :: nat
  cache_hits :: nat
  cache_misses :: nat
  cache_hit_rate :: rat

section \<open>The key-value store\<close>

text \<open>
  Modelled from the spec: the key-value store behind the cache manager (a DynamoDB table
  keyed by \<open>file_hash\<close>), with get-by-key and put-by-key that overwrites. The state is the
  stored items by key and the faults still to come. Each call of the table takes the head
  of \<open>outages\<close>: \<open>Some e\<close> makes the call raise \<open>e\<close>, \<open>None\<close> (or an exhausted list) lets
  it through. A write is seen by the next read, and no item leaves the table by expiry:
  the code sets \<open>ttl\<close> and never reads it.
\<close>

record Table =
  rows :: "string \<rightharpoonup> CacheEntry"
  outages :: "string option list"

definition next_call :: "Table \<Rightarrow> string option \<times> Table" where
  "next_call t = (case outages t of [] \<Rightarrow> (None, t) | f # fs \<Rightarrow> (f, t\<lparr>outages := fs\<rparr>))"

definition get_item :: "Table \<Rightarrow> string \<Rightarrow> (string + CacheEntry option) \<times> Table" where
  "get_item t k =
     (case next_call t of
        (Some e, t') \<Rightarrow> (Inl e, t')
      | (None, t') \<Rightarrow> (Inr (rows t' k), t'))"

definition put_item :: "Table \<Rightarrow> CacheEntry \<Rightarrow> (string + unit) \<times> Table" where
  "put_item t item =
     (case next_call t of
        (Some e, t') \<Rightarrow> (Inl e, t')
      | (None, t') \<Rightarrow> (Inr (), t'\<lparr>rows := (rows t')(file_hash item \<mapsto> item)\<rparr>))"

section \<open>cache\_manager\_improved.py\<close>

text \<open>
  A float and a \<open>Decimal\<close> are both the number they denote, so \<open>float_to_decimal\<close> and
  \<open>decimal_to_float\<close>, which change the representation of a number and not its value,
  leave the metadata as it is.
\<close>

definition float_to_decimal :: "Metadata \<Rightarrow> Metadata" where
  "float_to_decimal obj = obj"

definition decimal_to_float :: "CacheEntry \<Rightarrow> CacheEntry" where
  "decimal_to_float obj = obj"

text \<open>
  \<open>get_cached\<close>: the \<open>try\<close> around \<open>get_item\<close> turns a raised fault into \<open>None\<close>, the
  value of a miss.
\<close>

definition get_cached :: "Table \<Rightarrow> string \<Rightarrow> CacheEntry option \<times> Table" where
  "get_cached t fh =
     (case get_item t fh of
        (Inr (Some item), t') \<Rightarrow> (Some item, t')
      | (Inr None, t') \<Rightarrow> (None, t')
      | (Inl e, t') \<Rightarrow> (None, t'))"

text \<open>
  \<open>save_to_cache\<close>; \<open>now\<close> is \<open>int(time.time())\<close> and \<open>utcnow\<close> is
  \<open>datetime.utcnow().isoformat()\<close>. The result is the returned flag and the table.
\<close>

definition save_to_cache ::
  "Table \<Rightarrow> int \<Rightarrow> string \<Rightarrow> string \<Rightarrow> string \<Rightarrow> string \<Rightarrow> Metadata \<Rightarrow> int \<Rightarrow>
     string option \<Rightarrow> bool \<Rightarrow> bool \<times> Table" where
  "save_to_cache t now utcnow fh path doc md ttl_hours src store_source =
     (let ttl_v = now + ttl_hours * 3600;
          metadata_decimal = float_to_decimal md;
          item = \<lparr>file_hash = fh, file_path = path, documentation = doc,
                  metadata = metadata_decimal, created_at = utcnow, ttl = ttl_v,
                  source_code = None\<rparr>;
          item' = (if store_source \<and> truthy src then item\<lparr>source_code := src\<rparr> else item)
      in case put_item t item' of
           (Inr u, t') \<Rightarrow> (True, t')
         | (Inl e, t') \<Rightarrow> (False, t'))"

section \<open>chunk\_processor\_improved.py\<close>

text \<open>
  The generator (\<open>claude_client.generate_documentation\<close>, of a module that is not among
  the source files) is a parameter: an opaque collaborator with a state of its own. From
  its state, the code, the file label, the analysis and the context it returns the
  documentation with its cost metrics, or raises.
\<close>

type_synonym 'g Generator =
  "'g \<Rightarrow> string \<Rightarrow> string \<Rightarrow> string option \<Rightarrow> string \<Rightarrow> (string + string \<times> CostMetrics) \<times> 'g"

text \<open>
  The fields of \<open>ChunkProcessor\<close>; its cache manager is the table of the world below.
  \<open>max_workers\<close> is the size of the worker pool, at least 1 (the pool does not start
  with less): it bounds how many jobs run at once and has no part in what they compute.
\<close>

record 'g ChunkProcessor =
  claude_client :: "'g Generator"
  max_workers :: nat
  store_source_code :: bool

text \<open>
  What a chunk job reads and changes outside itself: the table of the cache manager,
  the generator's state, the two clock readings, and a count of the calls made to the
  generator.
\<close>

record 'g World =
  table :: Table
  gen_state :: 'g
  gen_calls :: nat
  time_now :: int
  utcnow_iso :: string

text \<open>
  \<open>_calculate_chunk_hash\<close>. \<open>sha\<close> stands for
  \<open>hashlib.sha256(s.encode('utf-8')).hexdigest()\<close>.
\<close>

definition hash_input :: "string \<Rightarrow> CodeChunk \<Rightarrow> string" where
  "hash_input fp chunk = fp @ ''::'' @ str_int (chunk_id chunk) @ ''::'' @ content chunk"

definition calculate_chunk_hash :: "(string \<Rightarrow> string) \<Rightarrow> string \<Rightarrow> CodeChunk \<Rightarrow> string" where
  "calculate_chunk_hash sha fp chunk = sha (hash_input fp chunk)"

definition build_chunk_context :: "string \<Rightarrow> CodeChunk \<Rightarrow> string" where
  "build_chunk_context fp chunk =
     ''This is part of a larger file ('' @ fp @ '').'' @ [nl, nl] @
     ''**Chunk Information:**'' @ [nl] @
     ''- Chunk '' @ str_int (chunk_id chunk + 1) @ [nl] @
     ''- Lines: '' @ str_int (start_line chunk) @ ''-'' @ str_int (end_line chunk) @ [nl] @
     ''- Type: '' @ chunk_type chunk @ [nl] @
     ''- Contains: '' @
       (if elements chunk \<noteq> [] then str_join '', '' (elements chunk) else ''code'') @ [nl, nl] @
     ''Generate documentation for this specific chunk. Focus on the functions/classes present.''
       @ [nl]"

text \<open>
  \<open>_process_single_chunk\<close>, the job of one chunk: \<open>Inl e\<close> when it raises \<open>e\<close>. An item
  of the table is a dictionary with keys, so \<open>if cached\<close> is true exactly when the lookup
  returned one.
\<close>

definition process_single_chunk ::
  "(string \<Rightarrow> string) \<Rightarrow> 'g ChunkProcessor \<Rightarrow> string \<Rightarrow> CodeChunk \<Rightarrow> 'g World \<Rightarrow>
     (string + ChunkResult) \<times> 'g World" where
  "process_single_chunk sha self fp chunk w =
     (let chunk_hash = calculate_chunk_hash sha fp chunk in
      case get_cached (table w) chunk_hash of
        (Some cached, t1) \<Rightarrow>
          (let cached_clean = decimal_to_float cached in
           (Inr \<lparr>res_chunk_id = chunk_id chunk,
                 res_documentation = documentation cached_clean,
                 res_cost = 0,
                 res_tokens = (case md_tokens (metadata cached_clean) of None \<Rightarrow> 0 | Some n \<Rightarrow> n),
                 res_cached = True,
                 res_source_code = source_code cached_clean,
                 res_error = None\<rparr>,
            w\<lparr>table := t1\<rparr>))
      | (None, t1) \<Rightarrow>
          (let ctx = build_chunk_context fp chunk in
           case claude_client self (gen_state w) (content chunk)
                  (fp @ '' (Chunk '' @ str_int (chunk_id chunk + 1) @ '')'') None ctx of
             (Inl e, g1) \<Rightarrow>
               (Inl e, w\<lparr>table := t1, gen_state := g1, gen_calls := gen_calls w + 1\<rparr>)
           | (Inr (doc, cost_metrics), g1) \<Rightarrow>
               (let cache_metadata =
                      \<lparr>md_cost = Some (cm_total_cost cost_metrics),
                       md_tokens = Some (cm_total_tokens cost_metrics),
                       md_chunk_id = Some (chunk_id chunk),
                       md_chunk_lines =
                         Some (str_int (start_line chunk) @ ''-'' @ str_int (end_line chunk))\<rparr>
                in case save_to_cache t1 (time_now w) (utcnow_iso w) chunk_hash
                          (fp @ ''#chunk'' @ str_int (chunk_id chunk)) doc cache_metadata 24
                          (Some (content chunk)) (store_source_code self) of
                     (saved, t2) \<Rightarrow>
                       (Inr \<lparr>res_chunk_id = chunk_id chunk,
                             res_documentation = doc,
                             res_cost = cm_total_cost cost_metrics,
                             res_tokens = cm_total_tokens cost_metrics,
                             res_cached = False,
                             res_source_code = Some (content chunk),
                             res_error = None\<rparr>,
                        w\<lparr>table := t2, gen_state := g1, gen_calls := gen_calls w + 1\<rparr>))))"

text \<open>The result \<open>process_chunks\<close> records for a chunk whose job raised \<open>e\<close>.\<close>

definition degraded_result :: "CodeChunk \<Rightarrow> string \<Rightarrow> ChunkResult" where
  "degraded_result chunk e =
     \<lparr>res_chunk_id = chunk_id chunk,
      res_documentation =
        ''<!-- Error processing chunk '' @ str_int (chunk_id chunk) @ '': '' @ e @ '' -->'',
      res_cost = 0,
      res_tokens = 0,
      res_cached = False,
      res_source_code = None,
      res_error = Some e\<rparr>"

text \<open>The local variables of \<open>process_chunks\<close> that its loop updates.\<close>

record Progress =
  acc_results :: "ChunkResult list"
  acc_cost :: rat
  acc_tokens :: int
  acc_hits :: nat
  acc_misses :: nat

definition progress0 :: Progress where
  "progress0 = \<lparr>acc_results = [], acc_cost = 0, acc_tokens = 0, acc_hits = 0, acc_misses = 0\<rparr>"

text \<open>
  The body of the loop over \<open>as_completed\<close>, for the outcome of one job: the \<open>try\<close>
  branch for a result, the \<open>except\<close> branch for a raised fault. The cost and the tokens
  of a result are numbers, so the two additions of the \<open>try\<close> branch do not raise. The
  cost is a float and its addition rounds; the tokens are integers.
\<close>

definition record_outcome ::
  "(rat \<Rightarrow> rat) \<Rightarrow> CodeChunk \<Rightarrow> string + ChunkResult \<Rightarrow> Progress \<Rightarrow> Progress" where
  "record_outcome rnd chunk outcome acc =
     (case outcome of
        Inr result \<Rightarrow>
          acc\<lparr>acc_results := acc_results acc @ [result],
              acc_cost := float_add rnd (acc_cost acc) (res_cost result),
              acc_tokens := acc_tokens acc + res_tokens result,
              acc_hits := (if res_cached result then acc_hits acc + 1 else acc_hits acc),
              acc_misses := (if res_cached result then acc_misses acc else acc_misses acc + 1)\<rparr>
      | Inl e \<Rightarrow>
          acc\<lparr>acc_results := acc_results acc @ [degraded_result chunk e]\<rparr>)"

text \<open>
  The worker pool and the loop over \<open>as_completed\<close>. The jobs are independent and each
  is taken as one step; \<open>completed\<close> lists the chunks in the order their jobs run and
  complete, any permutation of the chunk list.
\<close>

fun collect_results ::
  "(rat \<Rightarrow> rat) \<Rightarrow> (string \<Rightarrow> string) \<Rightarrow> 'g ChunkProcessor \<Rightarrow> string \<Rightarrow> CodeChunk list \<Rightarrow>
     Progress \<Rightarrow> 'g World \<Rightarrow> Progress \<times> 'g World" where
  "collect_results rnd sha self fp [] acc w = (acc, w)"
| "collect_results rnd sha self fp (chunk # rest) acc w =
     (case process_single_chunk sha self fp chunk w of
        (outcome, w') \<Rightarrow>
          collect_results rnd sha self fp rest (record_outcome rnd chunk outcome acc) w')"

text \<open>
  \<open>_merge_chunk_documentation\<close>. \<open>merge_header\<close> is the four header parts,
  \<open>merge_section\<close> the parts one pass of the loop appends, \<open>merge_sections\<close> the loop
  over \<open>enumerate(chunk_results)\<close> from index \<open>i\<close>: \<open>chunks[i]\<close> raises IndexError when
  there are more results than chunks.
\<close>

definition merge_header :: "string \<Rightarrow> CodeChunk list \<Rightarrow> string list" where
  "merge_header fp chunks =
     [''# Documentation: '' @ fp,
      '''',
      ''*This file was processed in '' @ str_int (int (length chunks)) @
        '' chunks using AST-based intelligent chunking.*'',
      '''']"

definition merge_section :: "CodeChunk \<Rightarrow> ChunkResult \<Rightarrow> string list" where
  "merge_section chunk result =
     [''## Chunk '' @ str_int (chunk_id chunk + 1) @ '': Lines '' @
        str_int (start_line chunk) @ ''-'' @ str_int (end_line chunk),
      ''''] @
     (if elements chunk \<noteq> [] then [''*Contains: '' @ str_join '', '' (elements chunk) @ ''*'', '''']
      else []) @
     (let chunk_doc = res_documentation result;
          lines = str_split nl chunk_doc;
          lines' = (if lines \<noteq> [] \<and> startswith (hd lines) ''# '' then tl lines else lines)
      in [str_strip (str_join [nl] lines'), '''', ''---'', ''''])"

fun merge_sections :: "CodeChunk list \<Rightarrow> nat \<Rightarrow> ChunkResult list \<Rightarrow> string + string list" where
  "merge_sections chunks i [] = Inr []"
| "merge_sections chunks i (result # rest) =
     (if i < length chunks then
        (case merge_sections chunks (Suc i) rest of
           Inl e \<Rightarrow> Inl e
         | Inr parts \<Rightarrow> Inr (merge_section (chunks ! i) result @ parts))
      else Inl ''list index out of range'')"

definition merge_chunk_documentation ::
  "string \<Rightarrow> ChunkResult list \<Rightarrow> CodeChunk list \<Rightarrow> string + string" where
  "merge_chunk_documentation fp chunk_results chunks =
     (case merge_sections chunks 0 chunk_results of
        Inl e \<Rightarrow> Inl e
      | Inr parts \<Rightarrow> Inr (str_join [nl] (merge_header fp chunks @ parts)))"

text \<open>
  The \<open>metrics\<close> dictionary built after the loop. The hit rate is
  \<open>cache_hits / len(chunks) * 100\<close>, a true division and a multiplication on floats, or
  the integer 0 for the empty chunk list.
\<close>

definition build_metrics :: "(rat \<Rightarrow> rat) \<Rightarrow> CodeChunk list \<Rightarrow> Progress \<Rightarrow> Metrics" where
  "build_metrics rnd chunks acc =
     \<lparr>total_cost = acc_cost acc,
      total_tokens = acc_tokens acc,
      total_chunks = length chunks,
      cache_hits = acc_hits acc,
      cache_misses = acc_misses acc,
      cache_hit_rate =
        (if chunks \<noteq> []
         then float_mul rnd (int_truediv rnd (int (acc_hits acc)) (int (length chunks))) 100
         else 0)\<rparr>"

text \<open>
  \<open>process_chunks\<close>: run the jobs, sort the results by \<open>chunk_id\<close> (\<open>list.sort\<close> is
  stable, as \<open>sort_key\<close> is), merge, and return the document with the metrics; \<open>Inl e\<close>
  when the merge raises.
\<close>

definition process_chunks ::
  "(rat \<Rightarrow> rat) \<Rightarrow> (string \<Rightarrow> string) \<Rightarrow> 'g ChunkProcessor \<Rightarrow> string \<Rightarrow> CodeChunk list \<Rightarrow>
     CodeChunk list \<Rightarrow> 'g World \<Rightarrow> (string + string \<times> Metrics) \<times> 'g World" where
  "process_chunks rnd sha self fp chunks completed w =
     (case collect_results rnd sha self fp completed progress0 w of
        (acc, w') \<Rightarrow>
          (let chunk_results = sort_key res_chunk_id (acc_results acc) in
           case merge_chunk_documentation fp chunk_results chunks of
             Inl e \<Rightarrow> (Inl e, w')
           | Inr merged_doc \<Rightarrow> (Inr (merged_doc, build_metrics rnd chunks acc), w')))"

section \<open>Example data\<close>

text \<open>
  A generator for the examples: it fails on the code \<open>bad\<close> and otherwise returns a
  text with a title line; its state counts its calls.
\<close>

definition ex_generator :: "nat Generator" where
  "ex_generator g code label analysis ctx =
     (if code = ''bad'' then (Inl ''boom'', Suc g)
      else (Inr (''# Title'' @ [nl] @ ''doc of '' @ code,
                 \<lparr>cm_total_cost = 1 / 4, cm_total_tokens = 10\<rparr>), Suc g))"

definition ex_processor :: "nat ChunkProcessor" where
  "ex_processor = \<lparr>claude_client = ex_generator, max_workers = 5, store_source_code = True\<rparr>"

definition ex_table :: Table where
  "ex_table = \<lparr>rows = Map.empty, outages = []\<rparr>"

definition ex_world :: "nat World" where
  "ex_world = \<lparr>table = ex_table, gen_state = 0, gen_calls = 0, time_now = 1000,
                utcnow_iso = ''2024-01-01T00:00:00''\<rparr>"

definition ex_chunk0 :: CodeChunk where
  "ex_chunk0 = \<lparr>chunk_id = 0, content = ''A'', start_line = 1, end_line = 10,
                 chunk_type = ''function'', elements = [''f'', ''g'']\<rparr>"

definition ex_chunk1 :: CodeChunk where
  "ex_chunk1 = \<lparr>chunk_id = 1, content = ''B'', start_line = 11, end_line = 20,
                 chunk_type = ''class'', elements = []\<rparr>"

definition ex_chunk_bad :: CodeChunk where
  "ex_chunk_bad = \<lparr>chunk_id = 1, content = ''bad'', start_line = 11, end_line = 20,
                    chunk_type = ''class'', elements = []\<rparr>"

definition ex_entry :: CacheEntry where
  "ex_entry = \<lparr>file_hash = ''a.py::0::A'', file_path = ''a.py#chunk0'',
                documentation = ''cached doc'',
                metadata = \<lparr>md_cost = Some (1 / 4), md_tokens = Some 7, md_chunk_id = Some 0,
                            md_chunk_lines = Some ''1-10''\<rparr>,
                created_at = ''2023-12-31T00:00:00'', ttl = 5000, source_code = Some ''A''\<rparr>"

text \<open>
  A table that holds the entry of the first example chunk, and the same table while the
  backend fails its next two calls.
\<close>

definition ex_warm_table :: Table where
  "ex_warm_table = \<lparr>rows = [''a.py::0::A'' \<mapsto> ex_entry], outages = []\<rparr>"

definition ex_down_table :: Table where
  "ex_down_table = \<lparr>rows = [''a.py::0::A'' \<mapsto> ex_entry],
                     outages = [Some ''throttled'', Some ''throttled'']\<rparr>"



text \<open>
  The examples round with the identity: their costs and rates are floats that the
  operations on them yield exactly.
\<close>

section \<open>Auxiliary notions\<close>

text \<open>
  The accumulators of \<open>process_chunks\<close> agree with its result list: the cost is the float
  sum, from 0 and in the order of the list, of the costs of the results that do not stand
  for a failed job; the tokens are the sum over the results; the hits are the cached
  results, the misses the results that are neither cached nor stand for a failed job.
\<close>

definition tallied :: "(rat \<Rightarrow> rat) \<Rightarrow> Progress \<Rightarrow> bool" where
  "tallied rnd acc =
     (acc_cost acc =
        foldl (float_add rnd) 0
          (map res_cost (filter (\<lambda>r. res_error r = None) (acc_results acc)))
      \<and> acc_tokens acc = sum_list (map res_tokens (acc_results acc))
      \<and> acc_hits acc = length (filter res_cached (acc_results acc))
      \<and> acc_misses acc =
          length (filter (\<lambda>r. \<not> res_cached r \<and> res_error r = None) (acc_results acc)))"

text \<open>The result that the job of \<open>c\<close> builds from the cached entry \<open>e\<close>.\<close>

definition hit_result :: "CodeChunk \<Rightarrow> CacheEntry \<Rightarrow> ChunkResult" where
  "hit_result c e =
     \<lparr>res_chunk_id = chunk_id c,
      res_documentation = documentation e,
      res_cost = 0,
      res_tokens = (case md_tokens (metadata e) of None \<Rightarrow> 0 | Some n \<Rightarrow> n),
      res_cached = True,
      res_source_code = source_code e,
      res_error = None\<rparr>"


section \<open>Facts about the decimal form of an integer\<close>

lemma digit_char_digit: "d < 10 \<Longrightarrow> digit_char d \<in> set ''0123456789''"
  unfolding digit_char_def by (rule nth_mem) simp

lemma digit_char_inj:
  assumes "a < 10" and "b < 10" and "digit_char a = digit_char b"
  shows "a = b"
proof -
  have d: "distinct ''0123456789''" by simp
  from assms show ?thesis
    unfolding digit_char_def using nth_eq_iff_index_eq [OF d, of a b] by simp
qed

lemma str_nat_small: "n < 10 \<Longrightarrow> str_nat n = [digit_char n]"
  by (subst str_nat.simps) simp

lemma str_nat_large: "\<not> n < 10 \<Longrightarrow> str_nat n = str_nat (n div 10) @ [digit_char (n mod 10)]"
  by (subst str_nat.simps) simp

lemma str_nat_nonempty: "str_nat n \<noteq> []"
  by (subst str_nat.simps) simp

lemma str_nat_inj: "str_nat n = str_nat m \<Longrightarrow> n = m"
proof (induction n arbitrary: m rule: str_nat.induct)
  case (1 n)
  show ?case
  proof (cases "n < 10")
    case n_small: True
    show ?thesis
    proof (cases "m < 10")
      case True
      with n_small "1.prems" have "digit_char n = digit_char m"
        by (simp add: str_nat_small)
      with n_small True show ?thesis by (rule digit_char_inj)
    next
      case False
      with n_small "1.prems" have "str_nat (m div 10) = []"
        by (simp add: str_nat_small str_nat_large)
      then show ?thesis using str_nat_nonempty by blast
    qed
  next
    case n_large: False
    show ?thesis
    proof (cases "m < 10")
      case True
      with n_large "1.prems" have "str_nat (n div 10) = []"
        by (simp add: str_nat_small str_nat_large)
      then show ?thesis using str_nat_nonempty by blast
    next
      case False
      with n_large "1.prems" have high: "str_nat (n div 10) = str_nat (m div 10)"
        and low: "digit_char (n mod 10) = digit_char (m mod 10)"
        by (simp_all add: str_nat_large)
      from high have "n div 10 = m div 10" by (rule "1.IH" [OF n_large])
      moreover from low have "n mod 10 = m mod 10"
        using digit_char_inj [of "n mod 10" "m mod 10"] by simp
      ultimately show ?thesis by (metis div_mult_mod_eq)
    qed
  qed
qed

lemma str_nat_digits: "set (str_nat n) \<subseteq> set ''0123456789''"
proof (induction n rule: str_nat.induct)
  case (1 n)
  show ?case
  proof (cases "n < 10")
    case True
    then show ?thesis using digit_char_digit [of n] by (simp add: str_nat_small)
  next
    case False
    have "n mod 10 < 10" by simp
    then have "digit_char (n mod 10) \<in> set ''0123456789''" by (rule digit_char_digit)
    with "1.IH" [OF False] False show ?thesis by (simp add: str_nat_large)
  qed
qed

lemma str_nat_no_minus: "hd (str_nat n) \<noteq> CHR ''-''"
proof -
  have "hd (str_nat n) \<in> set (str_nat n)" using str_nat_nonempty by simp
  then have "hd (str_nat n) \<in> set ''0123456789''" using str_nat_digits by blast
  then show ?thesis by auto
qed

lemma str_int_inj: "str_int i = str_int j \<Longrightarrow> i = j"
proof -
  assume eq: "str_int i = str_int j"
  show ?thesis
  proof (cases "i < 0")
    case i_neg: True
    show ?thesis
    proof (cases "j < 0")
      case True
      with i_neg eq have "str_nat (nat (- i)) = str_nat (nat (- j))" by (simp add: str_int_def)
      then have "nat (- i) = nat (- j)" by (rule str_nat_inj)
      with i_neg True show ?thesis by simp
    next
      case False
      with i_neg eq have "CHR ''-'' # str_nat (nat (- i)) = str_nat (nat j)"
        by (simp add: str_int_def)
      then have "hd (str_nat (nat j)) = CHR ''-''" by (metis list.sel(1))
      then show ?thesis using str_nat_no_minus by blast
    qed
  next
    case i_pos: False
    show ?thesis
    proof (cases "j < 0")
      case True
      with i_pos eq have "CHR ''-'' # str_nat (nat (- j)) = str_nat (nat i)"
        by (simp add: str_int_def)
      then have "hd (str_nat (nat i)) = CHR ''-''" by (metis list.sel(1))
      then show ?thesis using str_nat_no_minus by blast
    next
      case False
      with i_pos eq have "str_nat (nat i) = str_nat (nat j)" by (simp add: str_int_def)
      then have "nat i = nat j" by (rule str_nat_inj)
      with i_pos False show ?thesis by simp
    qed
  qed
qed

lemma str_int_no_colon: "CHR '':'' \<notin> set (str_int i)"
proof -
  have "CHR '':'' \<notin> set (str_nat n)" for n using str_nat_digits [of n] by auto
  then show ?thesis by (simp add: str_int_def)
qed

lemma str_int_0: "str_int 0 = ''0''"
  by (simp add: str_int_def str_nat_small digit_char_def)

lemma str_int_1: "str_int 1 = ''1''"
  by (simp add: str_int_def str_nat_small digit_char_def)

lemma prefix_before_first:
  assumes "c \<notin> set a" and "c \<notin> set b" and "a @ c # u = b @ c # v"
  shows "a = b \<and> u = v"
proof -
  have tw: "c \<notin> set xs \<Longrightarrow> takeWhile (\<lambda>x. x \<noteq> c) (xs @ c # ys) = xs" for xs ys
    by (induction xs) auto
  from tw [OF assms(1), of u] tw [OF assms(2), of v] have "a = b" using assms(3) by simp
  with assms(3) show ?thesis by simp
qed

lemma last_separator_splits:
  assumes "c \<notin> set a" and "c \<notin> set b" and "u @ c # a = v @ c # b"
  shows "u = v \<and> a = b"
proof -
  from assms(3) have "rev (u @ c # a) = rev (v @ c # b)" by simp
  then have "rev a @ c # rev u = rev b @ c # rev v" by simp
  moreover have "c \<notin> set (rev a)" and "c \<notin> set (rev b)" using assms(1,2) by simp_all
  ultimately have "rev a = rev b \<and> rev u = rev v" by (rule prefix_before_first [rotated -1])
  then show ?thesis by simp
qed

lemma hash_input_same_content:
  assumes "hash_input fp c = hash_input fp' c'" and "content c = content c'"
  shows "fp = fp' \<and> chunk_id c = chunk_id c'"
proof -
  let ?a = "str_int (chunk_id c)" and ?b = "str_int (chunk_id c')"
  from assms have "(fp @ '':'') @ CHR '':'' # ?a = (fp' @ '':'') @ CHR '':'' # ?b"
    by (simp add: hash_input_def)
  then have "fp @ '':'' = fp' @ '':'' \<and> ?a = ?b"
    by (rule last_separator_splits [OF str_int_no_colon str_int_no_colon])
  then show ?thesis using str_int_inj by simp
qed

section \<open>The cache key of a chunk\<close>

text \<open>
  C8. The key of a chunk is the digest of the file path, \<open>::\<close>, the ordinal, \<open>::\<close> and
  the content. It is a function of these three alone: two chunks that agree on ordinal
  and content have the same key whatever their other fields; replacing the text of the
  chunk at position \<open>i\<close> of a list leaves the key at every other position as it was; and
  for one content, a different ordinal or a different file path gives a different
  canonical string.
\<close>

theorem chunk_key_depends_on_path_ordinal_content:
  "calculate_chunk_hash sha fp c =
     sha (fp @ ''::'' @ str_int (chunk_id c) @ ''::'' @ content c)
   \<and> (chunk_id c = chunk_id c' \<and> content c = content c' \<longrightarrow>
        calculate_chunk_hash sha fp c = calculate_chunk_hash sha fp c')
   \<and> (j < length chunks \<and> j \<noteq> i \<longrightarrow>
        calculate_chunk_hash sha fp ((chunks[i := (chunks ! i)\<lparr>content := new_text\<rparr>]) ! j) =
        calculate_chunk_hash sha fp (chunks ! j))
   \<and> (content c = content c' \<and> (fp \<noteq> fp' \<or> chunk_id c \<noteq> chunk_id c') \<longrightarrow>
        hash_input fp c \<noteq> hash_input fp' c')"
proof -
  have key: "calculate_chunk_hash sha fp c =
      sha (fp @ ''::'' @ str_int (chunk_id c) @ ''::'' @ content c)"
    by (simp add: calculate_chunk_hash_def hash_input_def)
  have same: "chunk_id c = chunk_id c' \<and> content c = content c' \<longrightarrow>
      calculate_chunk_hash sha fp c = calculate_chunk_hash sha fp c'"
    by (simp add: calculate_chunk_hash_def hash_input_def)
  have sibling: "j < length chunks \<and> j \<noteq> i \<longrightarrow>
      calculate_chunk_hash sha fp ((chunks[i := (chunks ! i)\<lparr>content := new_text\<rparr>]) ! j) =
      calculate_chunk_hash sha fp (chunks ! j)"
    by simp
  have differ: "content c = content c' \<and> (fp \<noteq> fp' \<or> chunk_id c \<noteq> chunk_id c') \<longrightarrow>
      hash_input fp c \<noteq> hash_input fp' c'"
    using hash_input_same_content [of fp c fp' c'] by blast
  from key same sibling differ show ?thesis by blast
qed

theorem chunk_key_depends_on_path_ordinal_content_witness:
  "calculate_chunk_hash (\<lambda>s. s) ''a.py'' ex_chunk1 = ''a.py::1::B''
   \<and> calculate_chunk_hash (\<lambda>s. s) ''a.py'' ex_chunk1 =
       calculate_chunk_hash (\<lambda>s. s) ''a.py'' (ex_chunk1\<lparr>start_line := 5, elements := [''h'']\<rparr>)
   \<and> calculate_chunk_hash (\<lambda>s. s) ''a.py''
         ([ex_chunk0, ex_chunk1][0 := ([ex_chunk0, ex_chunk1] ! 0)\<lparr>content := ''Z''\<rparr>] ! 1) =
       calculate_chunk_hash (\<lambda>s. s) ''a.py'' ([ex_chunk0, ex_chunk1] ! 1)
   \<and> hash_input ''a.py'' ex_chunk1 \<noteq> hash_input ''b.py'' (ex_chunk1\<lparr>start_line := 5, elements := [''h'']\<rparr>)"
  using chunk_key_depends_on_path_ordinal_content
    [where sha = "\<lambda>s. s" and fp = "''a.py''" and c = ex_chunk1
       and c' = "ex_chunk1\<lparr>start_line := 5, elements := [''h'']\<rparr>"
       and chunks = "[ex_chunk0, ex_chunk1]" and i = 0 and j = 1 and new_text = "''Z''"
       and fp' = "''b.py''"]
  by (simp add: ex_chunk1_def str_int_1 calculate_chunk_hash_def hash_input_def)

section \<open>Faults and the source field of the cache manager\<close>

text \<open>
  C7. Cache operations hand no exception to their caller. \<open>get_cached\<close> answers
  \<open>None\<close> both when the table raises and when it has no item for the key (and the item
  when it has one); \<open>save_to_cache\<close> answers \<open>False\<close> when the write raises. So a chunk
  job whose generator call returns does return a result, whatever the table does.
\<close>

theorem cache_operations_never_raise:
  "(fst (get_item t k) = Inl e \<longrightarrow> fst (get_cached t k) = None)
   \<and> (fst (get_item t k) = Inr None \<longrightarrow> fst (get_cached t k) = None)
   \<and> (fst (get_item t k) = Inr (Some entry) \<longrightarrow> fst (get_cached t k) = Some entry)
   \<and> (fst (put_item t item) = Inl e \<longrightarrow>
        fst (save_to_cache t now utcnow fh path doc md ttl_hours src store_source) = False)
   \<and> (fst (claude_client self (gen_state w) (content chunk)
              (fp @ '' (Chunk '' @ str_int (chunk_id chunk + 1) @ '')'') None
              (build_chunk_context fp chunk)) = Inr (gdoc, cm) \<longrightarrow>
        (\<exists>r. fst (process_single_chunk sha self fp chunk w) = Inr r))"
proof -
  have miss: "fst (get_item t k) = Inl e \<longrightarrow> fst (get_cached t k) = None"
    by (cases "get_item t k") (auto simp: get_cached_def)
  have absent: "fst (get_item t k) = Inr None \<longrightarrow> fst (get_cached t k) = None"
    by (cases "get_item t k") (auto simp: get_cached_def)
  have present: "fst (get_item t k) = Inr (Some entry) \<longrightarrow> fst (get_cached t k) = Some entry"
    by (cases "get_item t k") (auto simp: get_cached_def)
  have save: "fst (put_item t item) = Inl e \<longrightarrow>
        fst (save_to_cache t now utcnow fh path doc md ttl_hours src store_source) = False"
    by (auto simp: save_to_cache_def put_item_def next_call_def Let_def
        split: list.splits option.splits)
  have caller: "fst (claude_client self (gen_state w) (content chunk)
              (fp @ '' (Chunk '' @ str_int (chunk_id chunk + 1) @ '')'') None
              (build_chunk_context fp chunk)) = Inr (gdoc, cm) \<longrightarrow>
        (\<exists>r. fst (process_single_chunk sha self fp chunk w) = Inr r)"
    by (auto simp: process_single_chunk_def Let_def split: prod.splits sum.splits option.splits)
  from miss absent present save caller show ?thesis by blast
qed

theorem cache_operations_never_raise_witness:
  "fst (get_item ex_down_table ''a.py::0::A'') = Inl ''throttled''
   \<and> fst (get_cached ex_down_table ''a.py::0::A'') = None
   \<and> fst (get_item ex_table ''a.py::0::A'') = Inr None
   \<and> fst (get_cached ex_table ''a.py::0::A'') = None
   \<and> fst (put_item ex_down_table ex_entry) = Inl ''throttled''
   \<and> fst (save_to_cache ex_down_table 1000 ''2024-01-01T00:00:00'' ''a.py::0::A'' ''a.py#chunk0''
            ''doc'' (metadata ex_entry) 24 (Some ''A'') True) = False
   \<and> (\<exists>r. fst (process_single_chunk (\<lambda>s. s) ex_processor ''a.py'' ex_chunk0
                  (ex_world\<lparr>table := ex_down_table\<rparr>)) = Inr r)"
proof -
  have g1: "fst (get_item ex_down_table ''a.py::0::A'') = Inl ''throttled''"
    by (simp add: get_item_def next_call_def ex_down_table_def)
  have g2: "fst (get_item ex_table ''a.py::0::A'') = Inr None"
    by (simp add: get_item_def next_call_def ex_table_def)
  have p: "fst (put_item ex_down_table ex_entry) = Inl ''throttled''"
    by (simp add: put_item_def next_call_def ex_down_table_def)
  have gen: "fst (claude_client ex_processor (gen_state (ex_world\<lparr>table := ex_down_table\<rparr>))
              (content ex_chunk0)
              (''a.py'' @ '' (Chunk '' @ str_int (chunk_id ex_chunk0 + 1) @ '')'') None
              (build_chunk_context ''a.py'' ex_chunk0)) =
            Inr (''# Title'' @ [nl] @ ''doc of A'', \<lparr>cm_total_cost = 1 / 4, cm_total_tokens = 10\<rparr>)"
    by (simp add: ex_processor_def ex_generator_def ex_chunk0_def)
  note down = cache_operations_never_raise
    [where t = ex_down_table and k = "''a.py::0::A''" and e = "''throttled''"
       and entry = ex_entry and item = ex_entry and now = 1000
       and utcnow = "''2024-01-01T00:00:00''" and fh = "''a.py::0::A''"
       and path = "''a.py#chunk0''" and doc = "''doc''" and md = "metadata ex_entry"
       and ttl_hours = 24 and src = "Some ''A''" and store_source = True
       and self = ex_processor and w = "ex_world\<lparr>table := ex_down_table\<rparr>"
       and chunk = ex_chunk0 and fp = "''a.py''" and sha = "\<lambda>s. s"
       and gdoc = "''# Title'' @ [nl] @ ''doc of A''"
       and cm = "\<lparr>cm_total_cost = 1 / 4, cm_total_tokens = 10\<rparr>"]
  note up = cache_operations_never_raise
    [where t = ex_table and k = "''a.py::0::A''" and e = "''throttled''"
       and entry = ex_entry and item = ex_entry and now = 1000
       and utcnow = "''2024-01-01T00:00:00''" and fh = "''a.py::0::A''"
       and path = "''a.py#chunk0''" and doc = "''doc''" and md = "metadata ex_entry"
       and ttl_hours = 24 and src = "Some ''A''" and store_source = True
       and self = ex_processor and w = "ex_world\<lparr>table := ex_down_table\<rparr>"
       and chunk = ex_chunk0 and fp = "''a.py''" and sha = "\<lambda>s. s"
       and gdoc = "''# Title'' @ [nl] @ ''doc of A''"
       and cm = "\<lparr>cm_total_cost = 1 / 4, cm_total_tokens = 10\<rparr>"]
  from down up g1 g2 p gen
  show ?thesis by blast
qed

text \<open>
  C5, as the code has it. In the entry that a successful \<open>save_to_cache\<close> persists, the
  source field is absent when \<open>store_source\<close> is false or the source text is absent, and
  is exactly the source text when \<open>store_source\<close> is true and the source text is present
  and not empty. An empty source text counts as absent: the test
  \<open>store_source and source_code\<close> leaves the field out then.
\<close>

theorem save_to_cache_source_field:
  assumes "save_to_cache t now utcnow fh path doc md ttl_hours src store_source = (True, t')"
  shows "\<exists>item. rows t' fh = Some item
           \<and> documentation item = doc
           \<and> (\<not> store_source \<or> src = None \<longrightarrow> source_code item = None)
           \<and> (src = Some [] \<longrightarrow> source_code item = None)
           \<and> (\<forall>s. store_source \<and> src = Some s \<and> s \<noteq> [] \<longrightarrow> source_code item = Some s)"
  using assms
  by (auto simp: save_to_cache_def put_item_def next_call_def Let_def
           split: list.splits option.splits if_splits)

theorem save_to_cache_source_field_witness:
  "save_to_cache ex_table 1000 ''2024-01-01T00:00:00'' ''k'' ''a.py'' ''doc''
      (metadata ex_entry) 24 (Some ''abc'') True =
     (True, \<lparr>rows = [''k'' \<mapsto> \<lparr>file_hash = ''k'', file_path = ''a.py'', documentation = ''doc'',
                 metadata = metadata ex_entry, created_at = ''2024-01-01T00:00:00'',
                 ttl = 87400, source_code = Some ''abc''\<rparr>], outages = []\<rparr>)
   \<and> (\<exists>item. [''k'' \<mapsto> \<lparr>file_hash = ''k'', file_path = ''a.py'', documentation = ''doc'',
                 metadata = metadata ex_entry, created_at = ''2024-01-01T00:00:00'',
                 ttl = 87400, source_code = Some ''abc''\<rparr>] ''k'' = Some item
          \<and> source_code item = Some ''abc'')
   \<and> save_to_cache ex_table 1000 ''2024-01-01T00:00:00'' ''k'' ''a.py'' ''doc''
      (metadata ex_entry) 24 (Some ''abc'') False =
     (True, \<lparr>rows = [''k'' \<mapsto> \<lparr>file_hash = ''k'', file_path = ''a.py'', documentation = ''doc'',
                 metadata = metadata ex_entry, created_at = ''2024-01-01T00:00:00'',
                 ttl = 87400, source_code = None\<rparr>], outages = []\<rparr>)"
proof -
  let ?e = "\<lparr>file_hash = ''k'', file_path = ''a.py'', documentation = ''doc'',
                 metadata = metadata ex_entry, created_at = ''2024-01-01T00:00:00'',
                 ttl = 87400, source_code = Some ''abc''\<rparr>"
  have kept: "save_to_cache ex_table 1000 ''2024-01-01T00:00:00'' ''k'' ''a.py'' ''doc''
      (metadata ex_entry) 24 (Some ''abc'') True = (True, \<lparr>rows = [''k'' \<mapsto> ?e], outages = []\<rparr>)"
    by (simp add: save_to_cache_def put_item_def next_call_def ex_table_def Let_def
        float_to_decimal_def)
  have dropped: "save_to_cache ex_table 1000 ''2024-01-01T00:00:00'' ''k'' ''a.py'' ''doc''
      (metadata ex_entry) 24 (Some ''abc'') False =
     (True, \<lparr>rows = [''k'' \<mapsto> ?e\<lparr>source_code := None\<rparr>], outages = []\<rparr>)"
    by (simp add: save_to_cache_def put_item_def next_call_def ex_table_def Let_def
        float_to_decimal_def)
  from save_to_cache_source_field [OF kept]
  have "\<exists>item. [''k'' \<mapsto> ?e] ''k'' = Some item \<and> source_code item = Some ''abc''"
    by auto
  with kept dropped show ?thesis by simp
qed

theorem save_to_cache_empty_source_counterexample:
  "fst (save_to_cache ex_table 1000 ''2024-01-01T00:00:00'' ''k'' ''a.py'' ''doc''
          (metadata ex_entry) 24 (Some '''') True) = True
   \<and> map_option source_code
        (rows (snd (save_to_cache ex_table 1000 ''2024-01-01T00:00:00'' ''k'' ''a.py'' ''doc''
          (metadata ex_entry) 24 (Some '''') True)) ''k'') = Some None
   \<and> map_option source_code
        (rows (snd (save_to_cache ex_table 1000 ''2024-01-01T00:00:00'' ''k'' ''a.py'' ''doc''
          (metadata ex_entry) 24 (Some '''') True)) ''k'') \<noteq> Some (Some '''')"
  by (simp add: save_to_cache_def put_item_def next_call_def ex_table_def Let_def)

section \<open>A cache hit\<close>

text \<open>
  C4. When the cache lookup of a chunk returns an entry, the job returns the result built
  from that entry: its documentation, the token count of its metadata (0 when the
  metadata has none), cached true, cost zero and the entry's source text when it has
  one; the generator is not called (its call count and its state are unchanged).
\<close>

theorem cache_hit_builds_result_from_entry:
  assumes "fst (get_cached (table w) (calculate_chunk_hash sha fp chunk)) = Some entry"
  shows "fst (process_single_chunk sha self fp chunk w) =
           Inr \<lparr>res_chunk_id = chunk_id chunk,
                res_documentation = documentation entry,
                res_cost = 0,
                res_tokens = (case md_tokens (metadata entry) of None \<Rightarrow> 0 | Some n \<Rightarrow> n),
                res_cached = True,
                res_source_code = source_code entry,
                res_error = None\<rparr>
         \<and> gen_calls (snd (process_single_chunk sha self fp chunk w)) = gen_calls w
         \<and> gen_state (snd (process_single_chunk sha self fp chunk w)) = gen_state w"
  using assms
  by (cases "get_cached (table w) (calculate_chunk_hash sha fp chunk)")
     (simp add: process_single_chunk_def decimal_to_float_def)

theorem cache_hit_builds_result_from_entry_witness:
  "fst (get_cached (table (ex_world\<lparr>table := ex_warm_table\<rparr>))
          (calculate_chunk_hash (\<lambda>s. s) ''a.py'' ex_chunk0)) = Some ex_entry
   \<and> fst (process_single_chunk (\<lambda>s. s) ex_processor ''a.py'' ex_chunk0
            (ex_world\<lparr>table := ex_warm_table\<rparr>)) =
       Inr \<lparr>res_chunk_id = 0, res_documentation = ''cached doc'', res_cost = 0, res_tokens = 7,
            res_cached = True, res_source_code = Some ''A'', res_error = None\<rparr>
   \<and> gen_calls (snd (process_single_chunk (\<lambda>s. s) ex_processor ''a.py'' ex_chunk0
            (ex_world\<lparr>table := ex_warm_table\<rparr>))) = 0"
proof -
  have hit: "fst (get_cached (table (ex_world\<lparr>table := ex_warm_table\<rparr>))
          (calculate_chunk_hash (\<lambda>s. s) ''a.py'' ex_chunk0)) = Some ex_entry"
    by (simp add: get_cached_def get_item_def next_call_def ex_warm_table_def
        calculate_chunk_hash_def hash_input_def ex_chunk0_def str_int_0)
  from cache_hit_builds_result_from_entry [OF hit, of ex_processor] hit
  show ?thesis by (simp add: ex_chunk0_def ex_entry_def ex_world_def)
qed

section \<open>The empty chunk list\<close>

text \<open>
  C6, as the code has it. For the empty chunk list \<open>process_chunks\<close> does not fail: it
  returns the document made of the header alone (the title line and the note counting
  0 chunks, no chunk section) with the metrics all zero, the hit rate included, and
  leaves the world as it was. The document is not the empty string: the header is
  always there.
\<close>

theorem process_chunks_empty:
  "process_chunks rnd sha self fp [] [] w =
     (Inr (''# Documentation: '' @ fp @ [nl, nl] @
           ''*This file was processed in 0 chunks using AST-based intelligent chunking.*'' @ [nl],
           \<lparr>total_cost = 0, total_tokens = 0, total_chunks = 0, cache_hits = 0,
            cache_misses = 0, cache_hit_rate = 0\<rparr>), w)"
  by (simp add: process_chunks_def progress0_def merge_chunk_documentation_def merge_header_def
      build_metrics_def str_int_0)

theorem process_chunks_empty_counterexample:
  "(case fst (process_chunks (\<lambda>x. x) (\<lambda>s. s) ex_processor ''a.py'' [] [] ex_world) of
      Inl e \<Rightarrow> False
    | Inr (doc, m) \<Rightarrow> doc \<noteq> [] \<and> total_chunks m = 0)"
  by (simp add: process_chunks_def progress0_def merge_chunk_documentation_def merge_header_def
      build_metrics_def str_int_0)

section \<open>Facts about the loop over the completed jobs\<close>

lemma process_single_chunk_result:
  assumes "process_single_chunk sha self fp c w = (Inr r, w')"
  shows "res_chunk_id r = chunk_id c \<and> res_error r = None"
  using assms
  by (auto simp: process_single_chunk_def Let_def split: prod.splits option.splits sum.splits)

lemma record_outcome_results:
  "acc_results (record_outcome rnd c outcome acc) =
     acc_results acc @ [case outcome of Inl e \<Rightarrow> degraded_result c e | Inr r \<Rightarrow> r]"
  by (simp add: record_outcome_def split: sum.splits)

lemma collect_results_append:
  "collect_results rnd sha self fp (xs @ ys) acc w =
     (case collect_results rnd sha self fp xs acc w of
        (acc', w') \<Rightarrow> collect_results rnd sha self fp ys acc' w')"
  by (induction xs arbitrary: acc w) (auto split: prod.splits)

lemma collect_results_ids:
  "map res_chunk_id (acc_results (fst (collect_results rnd sha self fp xs acc w))) =
     map res_chunk_id (acc_results acc) @ map chunk_id xs"
proof (induction xs arbitrary: acc w)
  case Nil
  then show ?case by simp
next
  case (Cons c xs)
  obtain outcome w' where job: "process_single_chunk sha self fp c w = (outcome, w')"
    by (cases "process_single_chunk sha self fp c w")
  have "res_chunk_id (case outcome of Inl e \<Rightarrow> degraded_result c e | Inr r \<Rightarrow> r) = chunk_id c"
    using job process_single_chunk_result [of sha self fp c w]
    by (cases outcome) (auto simp: degraded_result_def)
  then show ?case using job Cons.IH [of "record_outcome rnd c outcome acc" w']
    by (simp add: record_outcome_results)
qed

lemma merge_sections_fits:
  "i + length rs \<le> length chunks \<Longrightarrow>
     merge_sections chunks i rs = Inr (concat (map2 merge_section (drop i chunks) rs))"
proof (induction rs arbitrary: i)
  case Nil
  then show ?case by simp
next
  case (Cons r rs)
  then have i: "i < length chunks" and rest: "Suc i + length rs \<le> length chunks" by simp_all
  from i have "drop i chunks = chunks ! i # drop (Suc i) chunks"
    by (simp add: Cons_nth_drop_Suc)
  with i Cons.IH [OF rest] show ?case by simp
qed

lemma collect_results_extends:
  "\<exists>rs. acc_results (fst (collect_results rnd sha self fp xs acc w)) = acc_results acc @ rs
        \<and> length rs = length xs"
proof (induction xs arbitrary: acc w)
  case Nil
  then show ?case by simp
next
  case (Cons c xs)
  obtain outcome w' where job: "process_single_chunk sha self fp c w = (outcome, w')"
    by (cases "process_single_chunk sha self fp c w")
  from Cons.IH [of "record_outcome rnd c outcome acc" w'] job
  show ?case by (auto simp: record_outcome_results)
qed

lemma sorted_ids_of_results:
  assumes "sorted (map chunk_id chunks)" and "mset completed = mset chunks"
    and "map res_chunk_id rs = map chunk_id completed"
  shows "map res_chunk_id (sort_key res_chunk_id rs) = map chunk_id chunks"
proof -
  have "mset (map res_chunk_id (sort_key res_chunk_id rs)) = mset (map res_chunk_id rs)"
    by simp
  also have "\<dots> = mset (map chunk_id chunks)"
    using assms(2,3) by (metis mset_map)
  finally have same: "mset (map res_chunk_id (sort_key res_chunk_id rs)) = mset (map chunk_id chunks)" .
  have "sort (map chunk_id chunks) = map res_chunk_id (sort_key res_chunk_id rs)"
    by (rule properties_for_sort [OF same]) simp
  moreover have "sort (map chunk_id chunks) = map chunk_id chunks"
    using assms(1) by (simp add: sort_key_id_if_sorted)
  ultimately show ?thesis by simp
qed

lemma merge_of_one_result_per_chunk:
  assumes "length rs = length chunks"
  shows "merge_chunk_documentation fp rs chunks =
           Inr (str_join [nl] (merge_header fp chunks @ concat (map2 merge_section chunks rs)))"
  using assms merge_sections_fits [of 0 rs chunks]
  by (simp add: merge_chunk_documentation_def)

lemma tallied_record_outcome:
  assumes "tallied rnd acc" and "process_single_chunk sha self fp c w = (outcome, w')"
  shows "tallied rnd (record_outcome rnd c outcome acc)"
proof (cases outcome)
  case (Inl e)
  with assms(1) show ?thesis
    by (simp add: tallied_def record_outcome_def degraded_result_def)
next
  case (Inr r)
  with assms(2) have "res_error r = None"
    using process_single_chunk_result by blast
  with Inr assms(1) show ?thesis
    by (simp add: tallied_def record_outcome_def)
qed

lemma tallied_collect_results:
  "tallied rnd acc \<Longrightarrow> tallied rnd (fst (collect_results rnd sha self fp xs acc w))"
proof (induction xs arbitrary: acc w)
  case Nil
  then show ?case by simp
next
  case (Cons c xs)
  obtain outcome w' where job: "process_single_chunk sha self fp c w = (outcome, w')"
    by (cases "process_single_chunk sha self fp c w")
  from Cons.prems job have "tallied rnd (record_outcome rnd c outcome acc)"
    by (rule tallied_record_outcome)
  from Cons.IH [OF this, of w'] job show ?case by simp
qed

lemma tallied_progress0: "tallied rnd progress0"
  by (simp add: tallied_def progress0_def)

lemma process_chunks_returns:
  assumes "mset completed = mset chunks"
  shows "process_chunks rnd sha self fp chunks completed w =
     (Inr (str_join [nl] (merge_header fp chunks @ concat (map2 merge_section chunks
             (sort_key res_chunk_id
                (acc_results (fst (collect_results rnd sha self fp completed progress0 w)))))),
           build_metrics rnd chunks (fst (collect_results rnd sha self fp completed progress0 w))),
      snd (collect_results rnd sha self fp completed progress0 w))"
proof -
  let ?run = "collect_results rnd sha self fp completed progress0 w"
  from collect_results_extends [of rnd sha self fp completed progress0 w]
  have "length (acc_results (fst ?run)) = length completed"
    by (auto simp: progress0_def)
  also have "\<dots> = length chunks" using assms by (metis size_mset)
  finally have "length (sort_key res_chunk_id (acc_results (fst ?run))) = length chunks"
    by simp
  from merge_of_one_result_per_chunk [OF this, of fp] show ?thesis
    by (simp add: process_chunks_def case_prod_beta)
qed

section \<open>Order of the merged sections\<close>

lemma contiguous_ids_sorted:
  assumes "map chunk_id chunks = map int [0..<length chunks]"
  shows "sorted_wrt (<) (map chunk_id chunks)"
  unfolding assms by (simp add: sorted_wrt_map)

text \<open>
  C1. For a chunk list with the ordinals 0, 1, 2, ... in order, and for every order in
  which the jobs complete, the results after the sort carry the ordinals of the chunk
  list in its own order, strictly ascending, and the document that \<open>process_chunks\<close>
  returns is the header followed by one section per chunk in that order, the section of
  chunk \<open>i\<close> holding the result of ordinal \<open>i\<close>.
\<close>

theorem merged_sections_in_ordinal_order:
  assumes "map chunk_id chunks = map int [0..<length chunks]"
    and "mset completed = mset chunks"
  shows "let rs = sort_key res_chunk_id
                    (acc_results (fst (collect_results rnd sha self fp completed progress0 w)))
         in map res_chunk_id rs = map chunk_id chunks
            \<and> sorted_wrt (<) (map res_chunk_id rs)
            \<and> (\<exists>m. fst (process_chunks rnd sha self fp chunks completed w) =
                  Inr (str_join [nl]
                         (merge_header fp chunks @ concat (map2 merge_section chunks rs)), m))"
proof -
  let ?rs = "acc_results (fst (collect_results rnd sha self fp completed progress0 w))"
  have strict: "sorted_wrt (<) (map chunk_id chunks)"
    using assms(1) by (rule contiguous_ids_sorted)
  then have ascending: "sorted (map chunk_id chunks)"
    by (rule strict_sorted_imp_sorted)
  have "map res_chunk_id ?rs = map chunk_id completed"
    using collect_results_ids [of rnd sha self fp completed progress0 w]
    by (simp add: progress0_def)
  with ascending assms(2)
  have ids: "map res_chunk_id (sort_key res_chunk_id ?rs) = map chunk_id chunks"
    by (rule sorted_ids_of_results)
  from process_chunks_returns [OF assms(2), of rnd sha self fp w] ids strict
  show ?thesis by (simp add: Let_def)
qed

theorem merged_sections_in_ordinal_order_witness:
  "map chunk_id [ex_chunk0, ex_chunk_bad] = map int [0..<length [ex_chunk0, ex_chunk_bad]]
   \<and> mset [ex_chunk_bad, ex_chunk0] = mset [ex_chunk0, ex_chunk_bad]
   \<and> map res_chunk_id
        (acc_results (fst (collect_results (\<lambda>x. x) (\<lambda>s. s) ex_processor ''a.py''
           [ex_chunk_bad, ex_chunk0] progress0 ex_world))) = [1, 0]
   \<and> map res_chunk_id
        (sort_key res_chunk_id
          (acc_results (fst (collect_results (\<lambda>x. x) (\<lambda>s. s) ex_processor ''a.py''
             [ex_chunk_bad, ex_chunk0] progress0 ex_world)))) = [0, 1]
   \<and> map_sum id fst
        (fst (process_chunks (\<lambda>x. x) (\<lambda>s. s) ex_processor ''a.py'' [ex_chunk0, ex_chunk_bad]
                [ex_chunk_bad, ex_chunk0] ex_world)) =
       Inr (''# Documentation: a.py'' @ [nl, nl] @
            ''*This file was processed in 2 chunks using AST-based intelligent chunking.*'' @
            [nl, nl] @
            ''## Chunk 1: Lines 1-10'' @ [nl, nl] @ ''*Contains: f, g*'' @ [nl, nl] @
            ''doc of A'' @ [nl, nl] @ ''---'' @ [nl, nl] @
            ''## Chunk 2: Lines 11-20'' @ [nl, nl] @
            ''<!-- Error processing chunk 1: boom -->'' @ [nl, nl] @ ''---'' @ [nl])"
proof -
  have contiguous:
    "map chunk_id [ex_chunk0, ex_chunk_bad] = map int [0..<length [ex_chunk0, ex_chunk_bad]]"
    by (simp add: ex_chunk0_def ex_chunk_bad_def upt_rec)
  have permuted: "mset [ex_chunk_bad, ex_chunk0] = mset [ex_chunk0, ex_chunk_bad]"
    by simp
  have unsorted: "map res_chunk_id
        (acc_results (fst (collect_results (\<lambda>x. x) (\<lambda>s. s) ex_processor ''a.py''
           [ex_chunk_bad, ex_chunk0] progress0 ex_world))) = [1, 0]"
    by code_simp
  have doc: "map_sum id fst
        (fst (process_chunks (\<lambda>x. x) (\<lambda>s. s) ex_processor ''a.py'' [ex_chunk0, ex_chunk_bad]
                [ex_chunk_bad, ex_chunk0] ex_world)) =
       Inr (''# Documentation: a.py'' @ [nl, nl] @
            ''*This file was processed in 2 chunks using AST-based intelligent chunking.*'' @
            [nl, nl] @
            ''## Chunk 1: Lines 1-10'' @ [nl, nl] @ ''*Contains: f, g*'' @ [nl, nl] @
            ''doc of A'' @ [nl, nl] @ ''---'' @ [nl, nl] @
            ''## Chunk 2: Lines 11-20'' @ [nl, nl] @
            ''<!-- Error processing chunk 1: boom -->'' @ [nl, nl] @ ''---'' @ [nl])"
    by code_simp
  from merged_sections_in_ordinal_order
         [OF contiguous permuted, of "\<lambda>x. x" "\<lambda>s. s" ex_processor "''a.py''" ex_world]
  have "map res_chunk_id
        (sort_key res_chunk_id
          (acc_results (fst (collect_results (\<lambda>x. x) (\<lambda>s. s) ex_processor ''a.py''
             [ex_chunk_bad, ex_chunk0] progress0 ex_world)))) = [0, 1]"
    by (simp add: Let_def ex_chunk0_def ex_chunk_bad_def)
  with contiguous permuted unsorted doc show ?thesis by blast
qed

section \<open>The metrics\<close>

text \<open>
  C2, as the code has it. For every chunk list and completion order the metrics are: as
  total cost the float sum, from 0 and in completion order, of the costs of the results
  of the jobs that returned (the degraded result of a failed job, whose cost is zero, is
  not added); as total tokens the sum of the tokens over all chunk results; the number
  of chunks; as cache hits the number of cached results; as cache misses the number of
  results that are neither cached nor the degraded result of a failed job; and as hit
  rate the percentage \<open>hits / chunks * 100\<close> computed on floats, or 0 for the empty chunk
  list.
\<close>

theorem metrics_aggregate_chunk_results:
  assumes "mset completed = mset chunks"
  shows "let rs = acc_results (fst (collect_results rnd sha self fp completed progress0 w))
         in \<exists>doc. fst (process_chunks rnd sha self fp chunks completed w) =
              Inr (doc,
                   \<lparr>total_cost =
                      foldl (\<lambda>a c. rnd (a + c)) 0
                        (map res_cost (filter (\<lambda>r. res_error r = None) rs)),
                    total_tokens = sum_list (map res_tokens rs),
                    total_chunks = length chunks,
                    cache_hits = length (filter res_cached rs),
                    cache_misses =
                      length (filter (\<lambda>r. \<not> res_cached r \<and> res_error r = None) rs),
                    cache_hit_rate =
                      (if chunks = [] then 0
                       else rnd (rnd (of_nat (length (filter res_cached rs))
                                      / of_nat (length chunks)) * 100))\<rparr>)"
proof -
  have add: "float_add rnd = (\<lambda>a c. rnd (a + c))"
    by (simp add: float_add_def fun_eq_iff)
  have "tallied rnd (fst (collect_results rnd sha self fp completed progress0 w))"
    using tallied_progress0 by (rule tallied_collect_results)
  with process_chunks_returns [OF assms, of rnd sha self fp w] show ?thesis
    by (simp add: Let_def build_metrics_def tallied_def add int_truediv_def float_mul_def)
qed

theorem metrics_aggregate_chunk_results_witness:
  "mset [ex_chunk_bad, ex_chunk0] = mset [ex_chunk0, ex_chunk_bad]
   \<and> map res_cost (acc_results (fst (collect_results (\<lambda>x. x) (\<lambda>s. s) ex_processor ''a.py''
        [ex_chunk_bad, ex_chunk0] progress0 ex_world))) = [0, 1 / 4]
   \<and> map_sum id snd
        (fst (process_chunks (\<lambda>x. x) (\<lambda>s. s) ex_processor ''a.py'' [ex_chunk0, ex_chunk_bad]
                [ex_chunk_bad, ex_chunk0] ex_world)) =
       Inr \<lparr>total_cost = 1 / 4, total_tokens = 10, total_chunks = 2, cache_hits = 0,
            cache_misses = 1, cache_hit_rate = 0\<rparr>"
proof -
  have permuted: "mset [ex_chunk_bad, ex_chunk0] = mset [ex_chunk0, ex_chunk_bad]"
    by simp
  have costs: "map res_cost (acc_results (fst (collect_results (\<lambda>x. x) (\<lambda>s. s) ex_processor ''a.py''
        [ex_chunk_bad, ex_chunk0] progress0 ex_world))) = [0, 1 / 4]"
    by code_simp
  have results: "acc_results (fst (collect_results (\<lambda>x. x) (\<lambda>s. s) ex_processor ''a.py''
        [ex_chunk_bad, ex_chunk0] progress0 ex_world)) =
      [degraded_result ex_chunk_bad ''boom'',
       \<lparr>res_chunk_id = 0, res_documentation = ''# Title'' @ [nl] @ ''doc of A'',
        res_cost = 1 / 4, res_tokens = 10, res_cached = False, res_source_code = Some ''A'',
        res_error = None\<rparr>]"
    by code_simp
  from metrics_aggregate_chunk_results
         [OF permuted, of "\<lambda>x. x" "\<lambda>s. s" ex_processor "''a.py''" ex_world]
  have "map_sum id snd
        (fst (process_chunks (\<lambda>x. x) (\<lambda>s. s) ex_processor ''a.py'' [ex_chunk0, ex_chunk_bad]
                [ex_chunk_bad, ex_chunk0] ex_world)) =
       Inr \<lparr>total_cost = 1 / 4, total_tokens = 10, total_chunks = 2, cache_hits = 0,
            cache_misses = 1, cache_hit_rate = 0\<rparr>"
    unfolding results Let_def by (auto simp: degraded_result_def)
  with permuted costs show ?thesis by blast
qed

theorem hit_rate_and_miss_count_counterexample:
  "(case fst (process_chunks (\<lambda>x. x) (\<lambda>s. s) ex_processor ''a.py'' [ex_chunk0] [ex_chunk0]
                (ex_world\<lparr>table := ex_warm_table\<rparr>)) of
      Inl e \<Rightarrow> False
    | Inr (doc, m) \<Rightarrow>
        cache_hits m = 1 \<and> total_chunks m = 1 \<and> cache_hit_rate m = 100
        \<and> cache_hit_rate m \<noteq> of_nat (cache_hits m) / of_nat (total_chunks m))
   \<and> fst (get_cached (table ex_world) (calculate_chunk_hash (\<lambda>s. s) ''a.py'' ex_chunk_bad)) =
       None
   \<and> fst (get_cached
            (table (snd (process_single_chunk (\<lambda>s. s) ex_processor ''a.py'' ex_chunk_bad
                           ex_world)))
            (calculate_chunk_hash (\<lambda>s. s) ''a.py'' ex_chunk0)) = None
   \<and> (case fst (process_chunks (\<lambda>x. x) (\<lambda>s. s) ex_processor ''a.py''
                   [ex_chunk0, ex_chunk_bad] [ex_chunk_bad, ex_chunk0] ex_world) of
         Inl e \<Rightarrow> False
       | Inr (doc, m) \<Rightarrow> cache_hits m = 0 \<and> cache_misses m = 1 \<and> total_chunks m = 2)"
  by code_simp

section \<open>A job that raises\<close>

text \<open>
  C3. When the job of a chunk raises \<open>e\<close>, at whatever place of the completion order,
  the loop goes on with the remaining jobs from the world the failed job left; exactly
  one result is recorded for the chunk, with the error marker in its documentation,
  cost 0, tokens 0 and cached false; the rows of the table are those before the job (no
  entry written); and the whole run records one result per chunk, in completion order.
\<close>

theorem failing_job_yields_one_degraded_result:
  assumes "collect_results rnd sha self fp before acc w = (acc1, w1)"
    and "process_single_chunk sha self fp chunk w1 = (Inl e, w2)"
  shows "collect_results rnd sha self fp (before @ chunk # rest) acc w =
           collect_results rnd sha self fp rest
             (acc1\<lparr>acc_results := acc_results acc1 @
                [\<lparr>res_chunk_id = chunk_id chunk,
                  res_documentation =
                    ''<!-- Error processing chunk '' @ str_int (chunk_id chunk) @ '': '' @ e @
                    '' -->'',
                  res_cost = 0, res_tokens = 0, res_cached = False, res_source_code = None,
                  res_error = Some e\<rparr>]\<rparr>) w2
         \<and> rows (table w2) = rows (table w1)
         \<and> map res_chunk_id
              (acc_results (fst (collect_results rnd sha self fp (before @ chunk # rest) acc w))) =
             map res_chunk_id (acc_results acc) @ map chunk_id (before @ chunk # rest)"
proof -
  have continue: "collect_results rnd sha self fp (before @ chunk # rest) acc w =
      collect_results rnd sha self fp rest (record_outcome rnd chunk (Inl e) acc1) w2"
    using assms by (simp add: collect_results_append)
  have untouched: "rows (table w2) = rows (table w1)"
    using assms(2)
    by (auto simp: process_single_chunk_def get_cached_def get_item_def next_call_def Let_def
             split: prod.splits option.splits sum.splits list.splits)
  from continue untouched collect_results_ids [of rnd sha self fp "before @ chunk # rest" acc w]
  show ?thesis by (simp add: record_outcome_def degraded_result_def)
qed

theorem failing_job_yields_one_degraded_result_witness:
  "collect_results (\<lambda>x. x) (\<lambda>s. s) ex_processor ''a.py'' [ex_chunk0] progress0 ex_world =
     (fst (collect_results (\<lambda>x. x) (\<lambda>s. s) ex_processor ''a.py'' [ex_chunk0] progress0 ex_world),
      snd (collect_results (\<lambda>x. x) (\<lambda>s. s) ex_processor ''a.py'' [ex_chunk0] progress0 ex_world))
   \<and> fst (process_single_chunk (\<lambda>s. s) ex_processor ''a.py'' ex_chunk_bad
            (snd (collect_results (\<lambda>x. x) (\<lambda>s. s) ex_processor ''a.py'' [ex_chunk0] progress0 ex_world))) =
       Inl ''boom''
   \<and> rows (table (snd (process_single_chunk (\<lambda>s. s) ex_processor ''a.py'' ex_chunk_bad
            (snd (collect_results (\<lambda>x. x) (\<lambda>s. s) ex_processor ''a.py'' [ex_chunk0] progress0 ex_world))))) =
       rows (table (snd (collect_results (\<lambda>x. x) (\<lambda>s. s) ex_processor ''a.py'' [ex_chunk0] progress0
            ex_world)))
   \<and> map res_chunk_id
        (acc_results (fst (collect_results (\<lambda>x. x) (\<lambda>s. s) ex_processor ''a.py''
           ([ex_chunk0] @ ex_chunk_bad # [ex_chunk0\<lparr>chunk_id := 2\<rparr>]) progress0 ex_world))) =
       [0, 1, 2]
   \<and> map res_error
        (acc_results (fst (collect_results (\<lambda>x. x) (\<lambda>s. s) ex_processor ''a.py''
           ([ex_chunk0] @ ex_chunk_bad # [ex_chunk0\<lparr>chunk_id := 2\<rparr>]) progress0 ex_world))) =
       [None, Some ''boom'', None]"
proof -
  let ?w1 = "snd (collect_results (\<lambda>x. x) (\<lambda>s. s) ex_processor ''a.py'' [ex_chunk0] progress0 ex_world)"
  let ?acc1 = "fst (collect_results (\<lambda>x. x) (\<lambda>s. s) ex_processor ''a.py'' [ex_chunk0] progress0 ex_world)"
  let ?w2 = "snd (process_single_chunk (\<lambda>s. s) ex_processor ''a.py'' ex_chunk_bad ?w1)"
  have before: "collect_results (\<lambda>x. x) (\<lambda>s. s) ex_processor ''a.py'' [ex_chunk0] progress0 ex_world =
      (?acc1, ?w1)"
    by simp
  have raised: "fst (process_single_chunk (\<lambda>s. s) ex_processor ''a.py'' ex_chunk_bad ?w1) =
      Inl ''boom''"
    by code_simp
  then have job: "process_single_chunk (\<lambda>s. s) ex_processor ''a.py'' ex_chunk_bad ?w1 =
      (Inl ''boom'', ?w2)"
    by (metis prod.collapse)
  have errors: "map res_error
        (acc_results (fst (collect_results (\<lambda>x. x) (\<lambda>s. s) ex_processor ''a.py''
           ([ex_chunk0] @ ex_chunk_bad # [ex_chunk0\<lparr>chunk_id := 2\<rparr>]) progress0 ex_world))) =
       [None, Some ''boom'', None]"
    by code_simp
  note at_example = failing_job_yields_one_degraded_result
         [OF before job, of "[ex_chunk0\<lparr>chunk_id := 2\<rparr>]"]
  have untouched: "rows (table ?w2) = rows (table ?w1)"
    by (rule at_example [THEN conjunct2, THEN conjunct1])
  have "map res_chunk_id
        (acc_results (fst (collect_results (\<lambda>x. x) (\<lambda>s. s) ex_processor ''a.py''
           ([ex_chunk0] @ ex_chunk_bad # [ex_chunk0\<lparr>chunk_id := 2\<rparr>]) progress0 ex_world))) =
       map res_chunk_id (acc_results progress0) @
       map chunk_id ([ex_chunk0] @ ex_chunk_bad # [ex_chunk0\<lparr>chunk_id := 2\<rparr>])"
    by (rule at_example [THEN conjunct2, THEN conjunct2])
  also have "\<dots> = [0, 1, 2]"
    by (simp add: progress0_def ex_chunk0_def ex_chunk_bad_def)
  finally have ids: "map res_chunk_id
        (acc_results (fst (collect_results (\<lambda>x. x) (\<lambda>s. s) ex_processor ''a.py''
           ([ex_chunk0] @ ex_chunk_bad # [ex_chunk0\<lparr>chunk_id := 2\<rparr>]) progress0 ex_world))) =
       [0, 1, 2]" .
  from before raised errors untouched ids show ?thesis by blast
qed

section \<open>Failed jobs in the metrics\<close>

lemma cached_results_have_no_error:
  assumes "\<forall>r \<in> set (acc_results acc). res_cached r \<longrightarrow> res_error r = None"
  shows "\<forall>r \<in> set (acc_results (fst (collect_results rnd sha self fp xs acc w))).
           res_cached r \<longrightarrow> res_error r = None"
  using assms
proof (induction xs arbitrary: acc w)
  case Nil
  then show ?case by simp
next
  case (Cons c xs)
  obtain outcome w' where job: "process_single_chunk sha self fp c w = (outcome, w')"
    by (cases "process_single_chunk sha self fp c w")
  have "\<forall>r \<in> set (acc_results (record_outcome rnd c outcome acc)).
          res_cached r \<longrightarrow> res_error r = None"
  proof (cases outcome)
    case (Inl e)
    with Cons.prems show ?thesis
      by (simp add: record_outcome_results degraded_result_def)
  next
    case (Inr r)
    with job have "res_error r = None" using process_single_chunk_result by blast
    with Inr Cons.prems show ?thesis by (simp add: record_outcome_results)
  qed
  from Cons.IH [OF this, of w'] job show ?case by simp
qed

lemma hits_and_misses_partition:
  assumes "\<forall>r \<in> set rs. res_cached r \<longrightarrow> res_error r = None"
  shows "length (filter res_cached rs)
         + length (filter (\<lambda>r. \<not> res_cached r \<and> res_error r = None) rs) =
         length (filter (\<lambda>r. res_error r = None) rs)"
  using assms by (induction rs) auto

text \<open>
  C10. In every run, hits plus misses is the number of results of jobs that returned
  (those without the \<open>error\<close> key), and is strictly less than the number of chunks
  as soon as one job failed. A job that raises changes no accumulator but the result
  list, to which its degraded result is appended; a job that returns yields a result
  without error and adds one to hits plus misses.
\<close>

theorem failed_chunks_counted_neither_hit_nor_miss:
  assumes "mset completed = mset chunks"
  shows "let rs = acc_results (fst (collect_results rnd sha self fp completed progress0 w))
         in (\<exists>doc m. fst (process_chunks rnd sha self fp chunks completed w) = Inr (doc, m)
               \<and> total_chunks m = length rs
               \<and> cache_hits m + cache_misses m = length (filter (\<lambda>r. res_error r = None) rs)
               \<and> ((\<exists>r \<in> set rs. res_error r \<noteq> None) \<longrightarrow>
                    cache_hits m + cache_misses m < total_chunks m))
            \<and> (fst (process_single_chunk sha self fp chunk w1) = Inl e \<longrightarrow>
                 record_outcome rnd chunk (fst (process_single_chunk sha self fp chunk w1)) acc =
                   acc\<lparr>acc_results := acc_results acc @ [degraded_result chunk e]\<rparr>
                 \<and> res_error (degraded_result chunk e) = Some e)
            \<and> (fst (process_single_chunk sha self fp chunk w1) = Inr r \<longrightarrow>
                 res_error r = None
                 \<and> acc_hits (record_outcome rnd chunk (Inr r) acc)
                     + acc_misses (record_outcome rnd chunk (Inr r) acc) =
                   acc_hits acc + acc_misses acc + 1)"
proof -
  let ?acc = "fst (collect_results rnd sha self fp completed progress0 w)"
  let ?rs = "acc_results ?acc"
  have tally: "tallied rnd ?acc"
    using tallied_progress0 by (rule tallied_collect_results)
  have "\<forall>r \<in> set ?rs. res_cached r \<longrightarrow> res_error r = None"
    by (rule cached_results_have_no_error) (simp add: progress0_def)
  then have "length (filter res_cached ?rs)
      + length (filter (\<lambda>r. \<not> res_cached r \<and> res_error r = None) ?rs) =
      length (filter (\<lambda>r. res_error r = None) ?rs)"
    by (rule hits_and_misses_partition)
  with tally have counted:
    "acc_hits ?acc + acc_misses ?acc = length (filter (\<lambda>r. res_error r = None) ?rs)"
    by (simp add: tallied_def)
  from collect_results_extends [of rnd sha self fp completed progress0 w]
  have "length ?rs = length completed" by (auto simp: progress0_def)
  also have "\<dots> = length chunks" using assms by (metis size_mset)
  finally have total: "length chunks = length ?rs" by simp
  have fewer: "(\<exists>r \<in> set ?rs. res_error r \<noteq> None) \<longrightarrow>
      length (filter (\<lambda>r. res_error r = None) ?rs) < length ?rs"
    by (auto intro: length_filter_less)
  have run: "\<exists>doc m. fst (process_chunks rnd sha self fp chunks completed w) = Inr (doc, m)
      \<and> total_chunks m = length ?rs
      \<and> cache_hits m + cache_misses m = length (filter (\<lambda>r. res_error r = None) ?rs)
      \<and> ((\<exists>r \<in> set ?rs. res_error r \<noteq> None) \<longrightarrow>
            cache_hits m + cache_misses m < total_chunks m)"
    using process_chunks_returns [OF assms, of rnd sha self fp w] counted total fewer
    by (simp add: build_metrics_def)
  have raised: "fst (process_single_chunk sha self fp chunk w1) = Inl e \<longrightarrow>
      record_outcome rnd chunk (fst (process_single_chunk sha self fp chunk w1)) acc =
        acc\<lparr>acc_results := acc_results acc @ [degraded_result chunk e]\<rparr>
      \<and> res_error (degraded_result chunk e) = Some e"
    by (simp add: record_outcome_def degraded_result_def)
  have returned: "fst (process_single_chunk sha self fp chunk w1) = Inr r \<longrightarrow>
      res_error r = None
      \<and> acc_hits (record_outcome rnd chunk (Inr r) acc)
          + acc_misses (record_outcome rnd chunk (Inr r) acc) =
        acc_hits acc + acc_misses acc + 1"
    using process_single_chunk_result [of sha self fp chunk w1 r]
    by (cases "process_single_chunk sha self fp chunk w1") (simp add: record_outcome_def)
  from run raised returned show ?thesis by (simp add: Let_def)
qed

theorem failed_chunks_counted_neither_hit_nor_miss_witness:
  "mset [ex_chunk_bad, ex_chunk0] = mset [ex_chunk0, ex_chunk_bad]
   \<and> map res_error (acc_results (fst (collect_results (\<lambda>x. x) (\<lambda>s. s) ex_processor ''a.py''
        [ex_chunk_bad, ex_chunk0] progress0 ex_world))) = [Some ''boom'', None]
   \<and> fst (process_single_chunk (\<lambda>s. s) ex_processor ''a.py'' ex_chunk_bad ex_world) =
       Inl ''boom''
   \<and> record_outcome (\<lambda>x. x) ex_chunk_bad
         (fst (process_single_chunk (\<lambda>s. s) ex_processor ''a.py'' ex_chunk_bad ex_world))
         progress0 =
       progress0\<lparr>acc_results := [degraded_result ex_chunk_bad ''boom'']\<rparr>
   \<and> map_sum id snd
        (fst (process_chunks (\<lambda>x. x) (\<lambda>s. s) ex_processor ''a.py'' [ex_chunk0, ex_chunk_bad]
                [ex_chunk_bad, ex_chunk0] ex_world)) =
       Inr \<lparr>total_cost = 1 / 4, total_tokens = 10, total_chunks = 2, cache_hits = 0,
            cache_misses = 1, cache_hit_rate = 0\<rparr>"
proof -
  have permuted: "mset [ex_chunk_bad, ex_chunk0] = mset [ex_chunk0, ex_chunk_bad]"
    by simp
  have errors: "map res_error (acc_results (fst (collect_results (\<lambda>x. x) (\<lambda>s. s) ex_processor ''a.py''
        [ex_chunk_bad, ex_chunk0] progress0 ex_world))) = [Some ''boom'', None]"
    by code_simp
  have raised: "fst (process_single_chunk (\<lambda>s. s) ex_processor ''a.py'' ex_chunk_bad ex_world) =
      Inl ''boom''"
    by code_simp
  have metrics: "map_sum id snd
        (fst (process_chunks (\<lambda>x. x) (\<lambda>s. s) ex_processor ''a.py'' [ex_chunk0, ex_chunk_bad]
                [ex_chunk_bad, ex_chunk0] ex_world)) =
       Inr \<lparr>total_cost = 1 / 4, total_tokens = 10, total_chunks = 2, cache_hits = 0,
            cache_misses = 1, cache_hit_rate = 0\<rparr>"
    by code_simp
  from failed_chunks_counted_neither_hit_nor_miss
         [OF permuted, of "\<lambda>x. x" "\<lambda>s. s" ex_processor "''a.py''" ex_world ex_chunk_bad ex_world
            "''boom''" progress0] raised
  have "record_outcome (\<lambda>x. x) ex_chunk_bad
         (fst (process_single_chunk (\<lambda>s. s) ex_processor ''a.py'' ex_chunk_bad ex_world))
         progress0 =
       progress0\<lparr>acc_results := [degraded_result ex_chunk_bad ''boom'']\<rparr>"
    by (simp add: Let_def progress0_def)
  with permuted errors raised metrics show ?thesis by blast
qed

section \<open>A second run on a warm cache\<close>

lemma get_cached_no_outage: "outages t = [] \<Longrightarrow> get_cached t k = (rows t k, t)"
  by (simp add: get_cached_def get_item_def next_call_def split: option.splits)

lemma save_to_cache_no_outage:
  assumes "outages t = []"
  shows "\<exists>item. save_to_cache t now utcnow fh path doc md ttl_hours src store_source =
                  (True, t\<lparr>rows := (rows t)(fh \<mapsto> item)\<rparr>)
               \<and> documentation item = doc"
proof -
  let ?item = "\<lparr>file_hash = fh, file_path = path, documentation = doc,
      metadata = float_to_decimal md, created_at = utcnow, ttl = now + ttl_hours * 3600,
      source_code = (if store_source \<and> truthy src then src else None)\<rparr>"
  have "save_to_cache t now utcnow fh path doc md ttl_hours src store_source =
      (True, t\<lparr>rows := (rows t)(fh \<mapsto> ?item)\<rparr>)"
    using assms by (simp add: save_to_cache_def put_item_def next_call_def Let_def)
  moreover have "documentation ?item = doc" by simp
  ultimately show ?thesis by blast
qed

lemma job_hit:
  assumes "outages (table w) = []"
    and "rows (table w) (calculate_chunk_hash sha fp c) = Some e"
  shows "process_single_chunk sha self fp c w = (Inr (hit_result c e), w)"
  using assms
  by (simp add: process_single_chunk_def get_cached_no_outage decimal_to_float_def hit_result_def)

lemma job_keeps_rows:
  assumes "outages (table w) = []"
    and "process_single_chunk sha self fp c w = (Inr r, w')"
  shows "outages (table w') = []
         \<and> (\<exists>e. rows (table w') (calculate_chunk_hash sha fp c) = Some e
                \<and> documentation e = res_documentation r)
         \<and> (\<forall>k e. rows (table w) k = Some e \<longrightarrow> rows (table w') k = Some e)"
proof (cases "rows (table w) (calculate_chunk_hash sha fp c)")
  case (Some e)
  from job_hit [OF assms(1) Some, of self] assms(2)
  have "r = hit_result c e" and "w' = w" by simp_all
  with assms(1) Some show ?thesis by (simp add: hit_result_def)
next
  case None
  obtain reply g1 where gen: "claude_client self (gen_state w) (content c)
      (fp @ '' (Chunk '' @ str_int (chunk_id c + 1) @ '')'') None (build_chunk_context fp c) =
      (reply, g1)"
    by (cases "claude_client self (gen_state w) (content c)
      (fp @ '' (Chunk '' @ str_int (chunk_id c + 1) @ '')'') None (build_chunk_context fp c)")
  show ?thesis
  proof (cases reply)
    case (Inl e)
    with assms None gen show ?thesis
      by (simp add: process_single_chunk_def get_cached_no_outage)
  next
    case (Inr dm)
    obtain doc cm where dm: "dm = (doc, cm)" by (cases dm)
    from save_to_cache_no_outage [OF assms(1)]
    obtain item where
      saved: "save_to_cache (table w) (time_now w) (utcnow_iso w) (calculate_chunk_hash sha fp c)
         (fp @ ''#chunk'' @ str_int (chunk_id c)) doc
         \<lparr>md_cost = Some (cm_total_cost cm), md_tokens = Some (cm_total_tokens cm),
          md_chunk_id = Some (chunk_id c),
          md_chunk_lines = Some (str_int (start_line c) @ ''-'' @ str_int (end_line c))\<rparr>
         24 (Some (content c)) (store_source_code self) =
        (True, (table w)\<lparr>rows := (rows (table w))(calculate_chunk_hash sha fp c \<mapsto> item)\<rparr>)"
      and item: "documentation item = doc"
      by blast
    from assms None gen Inr dm saved
    have r: "res_documentation r = doc"
      and w': "table w' =
        (table w)\<lparr>rows := (rows (table w))(calculate_chunk_hash sha fp c \<mapsto> item)\<rparr>"
      by (auto simp: process_single_chunk_def get_cached_no_outage Let_def)
    from w' assms(1) None item r show ?thesis by auto
  qed
qed

lemma run_keeps_rows:
  assumes "outages (table w) = []"
    and "collect_results rnd sha self fp xs acc w = (acc', w')"
    and "\<forall>r \<in> set (acc_results acc'). res_error r = None"
  shows "outages (table w') = []
         \<and> (\<forall>k e. rows (table w) k = Some e \<longrightarrow> rows (table w') k = Some e)
         \<and> (\<exists>rs. acc_results acc' = acc_results acc @ rs
                \<and> list_all2 (\<lambda>c r. res_chunk_id r = chunk_id c
                      \<and> (\<exists>e. rows (table w') (calculate_chunk_hash sha fp c) = Some e
                              \<and> documentation e = res_documentation r)) xs rs)"
  using assms
proof (induction xs arbitrary: acc w)
  case Nil
  then show ?case by simp
next
  case (Cons c xs)
  obtain outcome w1 where job: "process_single_chunk sha self fp c w = (outcome, w1)"
    by (cases "process_single_chunk sha self fp c w")
  let ?acc1 = "record_outcome rnd c outcome acc"
  from Cons.prems(2) job have rest: "collect_results rnd sha self fp xs ?acc1 w1 = (acc', w')"
    by simp
  from collect_results_extends [of rnd sha self fp xs ?acc1 w1] rest
  obtain tail where tail: "acc_results acc' = acc_results ?acc1 @ tail" by auto
  have "\<exists>r. outcome = Inr r"
  proof (cases outcome)
    case (Inl e)
    then have "degraded_result c e \<in> set (acc_results acc')"
      using tail by (simp add: record_outcome_results)
    with Cons.prems(3) show ?thesis by (auto simp: degraded_result_def)
  next
    case (Inr r)
    then show ?thesis by blast
  qed
  then obtain r where r: "outcome = Inr r" by blast
  from job r have job': "process_single_chunk sha self fp c w = (Inr r, w1)" by simp
  from job_keeps_rows [OF Cons.prems(1) job']
  have up1: "outages (table w1) = []"
    and entry1: "\<exists>e. rows (table w1) (calculate_chunk_hash sha fp c) = Some e
                   \<and> documentation e = res_documentation r"
    and kept1: "\<forall>k e. rows (table w) k = Some e \<longrightarrow> rows (table w1) k = Some e"
    by blast+
  from Cons.IH [OF up1 rest Cons.prems(3)]
  obtain rs where up: "outages (table w') = []"
    and kept: "\<forall>k e. rows (table w1) k = Some e \<longrightarrow> rows (table w') k = Some e"
    and rs: "acc_results acc' = acc_results ?acc1 @ rs"
    and rel: "list_all2 (\<lambda>c r. res_chunk_id r = chunk_id c
                      \<and> (\<exists>e. rows (table w') (calculate_chunk_hash sha fp c) = Some e
                              \<and> documentation e = res_documentation r)) xs rs"
    by blast
  from entry1 kept have entry: "\<exists>e. rows (table w') (calculate_chunk_hash sha fp c) = Some e
                   \<and> documentation e = res_documentation r"
    by blast
  have id: "res_chunk_id r = chunk_id c"
    using process_single_chunk_result [OF job'] by simp
  from rs r have "acc_results acc' = acc_results acc @ r # rs"
    by (simp add: record_outcome_results)
  moreover from id entry rel
  have "list_all2 (\<lambda>c r. res_chunk_id r = chunk_id c
                      \<and> (\<exists>e. rows (table w') (calculate_chunk_hash sha fp c) = Some e
                              \<and> documentation e = res_documentation r)) (c # xs) (r # rs)"
    by simp
  ultimately show ?case using up kept kept1 by blast
qed









lemma fault_free_run_caches_every_entry:
  assumes "outages (table w0) = []"
    and "collect_results rnd sha self fp completed progress0 w0 = (acc1, w1)"
    and "\<forall>r \<in> set (acc_results acc1). res_error r = None"
  shows "list_all2 (\<lambda>c r. map_option documentation
                     (rows (table w1) (calculate_chunk_hash sha fp c)) =
                   Some (res_documentation r)) completed (acc_results acc1)"
proof -
  from run_keeps_rows [OF assms]
  have "list_all2 (\<lambda>c r. res_chunk_id r = chunk_id c
          \<and> (\<exists>e. rows (table w1) (calculate_chunk_hash sha fp c) = Some e
                  \<and> documentation e = res_documentation r)) completed (acc_results acc1)"
    by (auto simp: progress0_def)
  then show ?thesis by (rule list_all2_mono) auto
qed




end
